theory Spec2Isabelle
  imports Main
begin

section \<open>Python inventory service: data model (models.py)\<close>

text \<open>
  The service is a REST gateway (api.py) over a client of an upstream backend
  (inventory\_service.py), with one data class (models.py). Python exceptions are values
  of the type \<open>error\<close>; a function that can raise returns \<open>error + 'a\<close>, with
  \<open>Inl\<close> for the exception.

  The definitions keep the names of the code, with three exceptions: the field \<open>id\<close>
  is \<open>id'\<close>, the method \<open>_get_products_by_category_async\<close> is
  \<open>priv_get_products_by_category_async\<close>, and a parameter \<open>category\<close> is \<open>cat\<close>
  (an enumeration member) or \<open>category_name\<close> (a path string), since \<open>category\<close> is
  the field of the record.
\<close>

datatype error = ValueError | TypeError | InvalidOperation | Overflow | FieldType

text \<open>
  \<open>FieldType\<close> is not a Python exception. Python does not check the annotations of a
  data class, so \<open>cls(**data)\<close> stores a value of any type in any field. The record
  \<open>ProductDetails\<close> below has the annotated field types and cannot hold such a value;
  \<open>FieldType\<close> marks a dictionary that carries one. The model is meant for dictionaries
  whose values have the JSON types of the annotations.
\<close>

subsection \<open>ProductCategory\<close>

datatype ProductCategory =
  ACCESSORIES | HARDWARE | SOFTWARE | BOOKS | MOVIES | MUSIC | GAMES | OTHER

fun category_value :: "ProductCategory \<Rightarrow> string" where
  "category_value ACCESSORIES = ''Accessories''"
| "category_value HARDWARE = ''Hardware''"
| "category_value SOFTWARE = ''Software''"
| "category_value BOOKS = ''Books''"
| "category_value MOVIES = ''Movies''"
| "category_value MUSIC = ''Music''"
| "category_value GAMES = ''Games''"
| "category_value OTHER = ''Other''"

text \<open>Iterating the enumeration (\<open>for category in ProductCategory\<close>) follows the
  order of definition.\<close>

definition all_categories :: "ProductCategory list" where
  "all_categories = [ACCESSORIES, HARDWARE, SOFTWARE, BOOKS, MOVIES, MUSIC, GAMES, OTHER]"

text \<open>\<open>ProductCategory(s)\<close>: the member whose value is \<open>s\<close>, or ValueError.\<close>

definition ProductCategory_of :: "string \<Rightarrow> error + ProductCategory" where
  "ProductCategory_of s =
     (case find (\<lambda>c. category_value c = s) all_categories of
        None \<Rightarrow> Inl ValueError
      | Some c \<Rightarrow> Inr c)"

subsection \<open>decimal.Decimal under the default context\<close>

text \<open>
  A finite \<open>Decimal\<close> is a signed coefficient and an exponent: \<open>Dec c e\<close> is
  \<open>c * 10^e\<close>, so \<open>Decimal('19.99')\<close> is \<open>Dec 1999 (-2)\<close>. The code never changes
  the arithmetic context: precision 28, rounding ROUND\_HALF\_EVEN, Emax 999999,
  Emin -999999, with InvalidOperation and Overflow trapped (raised). Infinities, NaNs and
  the sign of zero are not modelled.
\<close>

datatype Decimal = Dec (coefficient: int) (exponent: int)

definition prec :: int where "prec = 28"
definition Emax :: int where "Emax = 999999"
definition Emin :: int where "Emin = - 999999"
definition Etiny :: int where "Etiny = Emin - prec + 1"
definition Etop :: int where "Etop = Emax - prec + 1"

text \<open>The number of digits of a coefficient (\<open>len(self._int)\<close>; zero has one digit).\<close>

fun ndigits :: "nat \<Rightarrow> nat" where
  "ndigits n = (if n < 10 then 1 else Suc (ndigits (n div 10)))"

declare ndigits.simps [simp del]

text \<open>Dropping the last \<open>k\<close> digits of a magnitude, rounding half to even.\<close>

definition round_half_even :: "nat \<Rightarrow> nat \<Rightarrow> nat" where
  "round_half_even m k =
     (let q = m div 10 ^ k; r = m mod 10 ^ k
      in if 10 ^ k < 2 * r \<or> (2 * r = 10 ^ k \<and> odd q) then q + 1 else q)"

text \<open>\<open>Decimal._fix\<close>: the result of an arithmetic operation is rounded to the
  precision of the context; a result above Emax raises Overflow.\<close>

definition Decimal_fix :: "Decimal \<Rightarrow> error + Decimal" where
  "Decimal_fix d =
     (let c = coefficient d; e = exponent d; n = int (ndigits (nat \<bar>c\<bar>))
      in if c = 0 then Inr (Dec 0 (min (max e Etiny) Emax))
         else if n + e - prec > Etop then Inl Overflow
         else
           let exp_min = max (n + e - prec) Etiny
           in if e < exp_min then
                let m = round_half_even (nat \<bar>c\<bar>) (nat (exp_min - e))
                in if int (ndigits m) > prec then
                     (if exp_min + 1 > Etop then Inl Overflow
                      else Inr (Dec (sgn c * int (m div 10)) (exp_min + 1)))
                   else Inr (Dec (sgn c * int m) exp_min)
              else Inr d)"

text \<open>\<open>quantity * unit_price\<close> with an \<open>int\<close> on the left: the integer is converted
  exactly, the coefficients are multiplied and the result is fixed.\<close>

definition int_times_Decimal :: "int \<Rightarrow> Decimal \<Rightarrow> error + Decimal" where
  "int_times_Decimal q d = Decimal_fix (Dec (q * coefficient d) (exponent d))"

text \<open>\<open>round(d, 2)\<close> is \<open>d.quantize(Decimal('1E-2'))\<close>: the value at exponent -2,
  rounded half to even; InvalidOperation when the result needs more digits than the
  precision.\<close>

definition round2 :: "Decimal \<Rightarrow> error + Decimal" where
  "round2 d =
     (let c = coefficient d; e = exponent d; adjusted = int (ndigits (nat \<bar>c\<bar>)) + e - 1
      in if c = 0 then Inr (Dec 0 (- 2))
         else if adjusted > Emax then Inl InvalidOperation
         else if adjusted + 2 + 1 > prec then Inl InvalidOperation
         else
           let m = (if - 2 \<le> e then nat \<bar>c\<bar> * 10 ^ nat (e + 2)
                    else round_half_even (nat \<bar>c\<bar>) (nat (- 2 - e)))
           in if int (ndigits m) > prec then Inl InvalidOperation
              else Inr (Dec (sgn c * int m) (- 2)))"

subsection \<open>Floats and JSON values\<close>

text \<open>
  A Python float is kept symbolically: \<open>Float d\<close> is the double nearest to the decimal
  \<open>d\<close>, which is what \<open>float(Decimal)\<close> returns and what a JSON parser reads from the
  literal \<open>d\<close>. \<open>str\<close> of a float is the shortest decimal that reads back as the same
  double; for a decimal of at most 15 significant digits that is \<open>d\<close> itself (up to
  trailing zeros), and \<open>Decimal_of_float\<close> returns \<open>d\<close>. Floats are never compared.
\<close>

datatype pyfloat = Float Decimal

definition float_of_Decimal :: "Decimal \<Rightarrow> pyfloat" where
  "float_of_Decimal d = Float d"

fun Decimal_of_float :: "pyfloat \<Rightarrow> Decimal" where
  "Decimal_of_float (Float d) = d"

text \<open>Python values as they occur in the dictionaries of the code: JSON values, and the
  enumeration members and decimals that \<open>from_dict\<close> stores into its argument.\<close>

datatype pyval =
    PNone
  | PBool bool
  | PInt int
  | PFloat pyfloat
  | PStr string
  | PList "pyval list"
  | PDict "(string \<times> pyval) list"
  | PCategory ProductCategory
  | PDecimal Decimal

type_synonym pydict = "(string \<times> pyval) list"

text \<open>A dictionary is an association list in insertion order, with distinct keys.
  \<open>data[k] = v\<close> replaces the value of an existing key in place and appends a new key.\<close>

fun setitem :: "pydict \<Rightarrow> string \<Rightarrow> pyval \<Rightarrow> pydict" where
  "setitem [] k v = [(k, v)]"
| "setitem ((k', v') # kvs) k v =
     (if k' = k then (k, v) # kvs else (k', v') # setitem kvs k v)"

text \<open>\<open>Decimal(str(v))\<close>. The text of \<open>None\<close>, of a boolean, a list, a dictionary or
  an enumeration member is no numeral. Numeric strings are not modelled.\<close>

fun Decimal_of_str :: "pyval \<Rightarrow> error + Decimal" where
  "Decimal_of_str (PFloat f) = Inr (Decimal_of_float f)"
| "Decimal_of_str (PInt n) = Inr (Dec n 0)"
| "Decimal_of_str (PDecimal d) = Inr d"
| "Decimal_of_str (PStr s) = Inl FieldType"
| "Decimal_of_str v = Inl InvalidOperation"

subsection \<open>ProductDetails\<close>

record ProductDetails =
  id' :: "string option"
  name :: "string option"
  description :: "string option"
  category :: ProductCategory
  quantity :: int
  unit_price :: Decimal
  details_url :: "string option"
  image_url :: "string option"

text \<open>The property \<open>total_price\<close>: \<open>round(self.quantity * self.unit_price, 2)\<close>.\<close>

definition total_price :: "ProductDetails \<Rightarrow> error + Decimal" where
  "total_price p =
     (case int_times_Decimal (quantity p) (unit_price p) of
        Inl e \<Rightarrow> Inl e
      | Inr m \<Rightarrow> round2 m)"

fun optional_str :: "string option \<Rightarrow> pyval" where
  "optional_str None = PNone"
| "optional_str (Some s) = PStr s"

text \<open>\<open>to_dict\<close>: \<open>asdict(self)\<close> lists the fields in the order of declaration; the
  category is replaced by its value and the unit price by a float, in place; the key
  \<open>total_price\<close> is new and comes last.\<close>

definition to_dict :: "ProductDetails \<Rightarrow> error + pydict" where
  "to_dict p =
     (let result = [(''id'', optional_str (id' p)),
                    (''name'', optional_str (name p)),
                    (''description'', optional_str (description p)),
                    (''category'', PCategory (category p)),
                    (''quantity'', PInt (quantity p)),
                    (''unit_price'', PDecimal (unit_price p)),
                    (''details_url'', optional_str (details_url p)),
                    (''image_url'', optional_str (image_url p))];
          result = setitem result ''category'' (PStr (category_value (category p)));
          result = setitem result ''unit_price'' (PFloat (float_of_Decimal (unit_price p)))
      in case total_price p of
           Inl e \<Rightarrow> Inl e
         | Inr t \<Rightarrow> Inr (setitem result ''total_price'' (PFloat (float_of_Decimal t))))"

text \<open>The keyword arguments that the generated \<open>__init__\<close> accepts.\<close>

definition field_names :: "string list" where
  "field_names = [''id'', ''name'', ''description'', ''category'', ''quantity'',
                  ''unit_price'', ''details_url'', ''image_url'']"

text \<open>Reading one keyword argument of the annotated type, with the default of the
  field when the key is absent.\<close>

definition str_field :: "pydict \<Rightarrow> string \<Rightarrow> error + string option" where
  "str_field data k =
     (case map_of data k of
        None \<Rightarrow> Inr None
      | Some PNone \<Rightarrow> Inr None
      | Some (PStr s) \<Rightarrow> Inr (Some s)
      | Some _ \<Rightarrow> Inl FieldType)"

definition category_field :: "pydict \<Rightarrow> error + ProductCategory" where
  "category_field data =
     (case map_of data ''category'' of
        None \<Rightarrow> Inr OTHER
      | Some (PCategory c) \<Rightarrow> Inr c
      | Some _ \<Rightarrow> Inl FieldType)"

definition quantity_field :: "pydict \<Rightarrow> error + int" where
  "quantity_field data =
     (case map_of data ''quantity'' of
        None \<Rightarrow> Inr 0
      | Some (PInt n) \<Rightarrow> Inr n
      | Some _ \<Rightarrow> Inl FieldType)"

definition unit_price_field :: "pydict \<Rightarrow> error + Decimal" where
  "unit_price_field data =
     (case map_of data ''unit_price'' of
        None \<Rightarrow> Inr (Dec 0 (- 2))
      | Some (PDecimal d) \<Rightarrow> Inr d
      | Some _ \<Rightarrow> Inl FieldType)"

text \<open>\<open>cls(**data)\<close>: a key that is no field is an unexpected keyword argument
  (TypeError); absent fields take their defaults.\<close>

definition init_ProductDetails :: "pydict \<Rightarrow> error + ProductDetails" where
  "init_ProductDetails data =
     (if \<exists>k \<in> set (map fst data). k \<notin> set field_names then Inl TypeError
      else
        case (str_field data ''id'', str_field data ''name'', str_field data ''description'',
              category_field data, quantity_field data, unit_price_field data,
              str_field data ''details_url'', str_field data ''image_url'') of
          (Inr i, Inr n, Inr d, Inr c, Inr q, Inr u, Inr du, Inr iu) \<Rightarrow>
            Inr \<lparr>id' = i, name = n, description = d, category = c, quantity = q,
                 unit_price = u, details_url = du, image_url = iu\<rparr>
        | _ \<Rightarrow> Inl FieldType)"

text \<open>The two conversions that \<open>from_dict\<close> writes back into its argument.\<close>

definition convert_category :: "pydict \<Rightarrow> error + pydict" where
  "convert_category data =
     (case map_of data ''category'' of
        Some (PStr s) \<Rightarrow>
          (case ProductCategory_of s of
             Inl e \<Rightarrow> Inl e
           | Inr c \<Rightarrow> Inr (setitem data ''category'' (PCategory c)))
      | _ \<Rightarrow> Inr data)"

definition convert_unit_price :: "pydict \<Rightarrow> error + pydict" where
  "convert_unit_price data =
     (case map_of data ''unit_price'' of
        None \<Rightarrow> Inr data
      | Some v \<Rightarrow>
          (case Decimal_of_str v of
             Inl e \<Rightarrow> Inl e
           | Inr d \<Rightarrow> Inr (setitem data ''unit_price'' (PDecimal d))))"

text \<open>\<open>from_dict\<close>. An argument that is no dictionary fails with TypeError, at
  \<open>'category' in data\<close>, at \<open>data['category']\<close> or at \<open>cls(**data)\<close>.\<close>

fun from_dict :: "pyval \<Rightarrow> error + ProductDetails" where
  "from_dict (PDict data) =
     (case convert_category data of
        Inl e \<Rightarrow> Inl e
      | Inr data1 \<Rightarrow>
          (case convert_unit_price data1 of
             Inl e \<Rightarrow> Inl e
           | Inr data2 \<Rightarrow> init_ProductDetails data2))"
| "from_dict v = Inl TypeError"

text \<open>
  JSON text is kept as the value it denotes: \<open>json.loads(json.dumps(v))\<close> is \<open>v\<close>
  for a value built from \<open>None\<close>, booleans, integers, floats, strings, lists and
  dictionaries with string keys. An enumeration member or a \<open>Decimal\<close> is not
  serialisable (TypeError).
\<close>

datatype json_text = JsonText pyval

fun serialisable :: "pyval \<Rightarrow> bool" where
  "serialisable (PCategory c) = False"
| "serialisable (PDecimal d) = False"
| "serialisable (PList vs) = list_all serialisable vs"
| "serialisable (PDict kvs) = list_all (\<lambda>kv. serialisable (snd kv)) kvs"
| "serialisable v = True"

definition json_dumps :: "pyval \<Rightarrow> error + json_text" where
  "json_dumps v = (if serialisable v then Inr (JsonText v) else Inl TypeError)"

fun json_loads :: "json_text \<Rightarrow> pyval" where
  "json_loads (JsonText v) = v"

definition to_json :: "ProductDetails \<Rightarrow> error + json_text" where
  "to_json p = (case to_dict p of Inl e \<Rightarrow> Inl e | Inr d \<Rightarrow> json_dumps (PDict d))"

definition from_json :: "json_text \<Rightarrow> error + ProductDetails" where
  "from_json json_str = from_dict (json_loads json_str)"

text \<open>
  \<open>@dataclass\<close> is used with its defaults (\<open>eq=True\<close>, \<open>frozen=False\<close>), which sets
  \<open>__hash__\<close> to \<open>None\<close>: hashing an instance raises TypeError.
\<close>

definition hash_ProductDetails :: "ProductDetails \<Rightarrow> error + int" where
  "hash_ProductDetails p = Inl TypeError"

section \<open>The upstream client (inventory\_service.py)\<close>

text \<open>
  The upstream backend is a function from requests to replies. \<open>ClientError\<close> is a
  request that raises in the HTTP library (connection refused, timeout). The body of a
  response is its parsed JSON, or \<open>None\<close> when \<open>response.json()\<close> raises. Every
  function that talks to the upstream returns, next to its result, the events it caused in
  program order: a request is \<open>Sent\<close>, and the coroutine resumes when its reply is
  \<open>Received\<close>. Log messages are not modelled.
\<close>

datatype http_method = GET | POST | DELETE

datatype request = Request (verb: http_method) (url: string) (json_body: "pyval option")

datatype reply = ClientError | Response (status: nat) (body: "pyval option")

type_synonym upstream = "request \<Rightarrow> reply"

datatype event = Sent request | Received request reply

definition perform :: "upstream \<Rightarrow> request \<Rightarrow> reply \<times> event list" where
  "perform up req = (up req, [Sent req, Received req (up req)])"

definition orleans_base_url :: string where
  "orleans_base_url = ''http://localhost:5001''"

text \<open>A list comprehension over \<open>f\<close> stops at the first element where \<open>f\<close> raises.\<close>

fun comprehension :: "('a \<Rightarrow> error + 'b) \<Rightarrow> 'a list \<Rightarrow> error + 'b list" where
  "comprehension f [] = Inr []"
| "comprehension f (x # xs) =
     (case f x of
        Inl e \<Rightarrow> Inl e
      | Inr y \<Rightarrow> (case comprehension f xs of Inl e \<Rightarrow> Inl e | Inr ys \<Rightarrow> Inr (y # ys)))"

text \<open>Iterating a parsed JSON value: a list gives its elements, a dictionary its keys,
  a string its characters; nothing else is iterable.\<close>

fun iterate :: "pyval \<Rightarrow> error + pyval list" where
  "iterate (PList vs) = Inr vs"
| "iterate (PDict kvs) = Inr (map (\<lambda>kv. PStr (fst kv)) kvs)"
| "iterate (PStr s) = Inr (map (\<lambda>c. PStr [c]) s)"
| "iterate v = Inl TypeError"

definition products_url :: "ProductCategory \<Rightarrow> string" where
  "products_url cat =
     orleans_base_url @ ''/api/inventory/'' @ category_value cat @ ''/products''"

text \<open>\<open>_get_products_by_category_async\<close>: every exception inside is caught and gives
  the empty list.\<close>

definition priv_get_products_by_category_async ::
  "upstream \<Rightarrow> ProductCategory \<Rightarrow> ProductDetails list \<times> event list" where
  "priv_get_products_by_category_async up cat =
     (let (response, trace) = perform up (Request GET (products_url cat) None)
      in (case response of
            ClientError \<Rightarrow> []
          | Response st payload \<Rightarrow>
              if st = 200 then
                (case payload of
                   None \<Rightarrow> []
                 | Some products_data \<Rightarrow>
                     (case iterate products_data of
                        Inl e \<Rightarrow> []
                      | Inr items \<Rightarrow>
                          (case comprehension from_dict items of
                             Inl e \<Rightarrow> []
                           | Inr products \<Rightarrow> products)))
              else [],
          trace))"

text \<open>\<open>all_products.update(products)\<close> hashes the elements one by one and keeps what
  it has added when one of them raises.\<close>

fun set_update ::
  "ProductDetails set \<Rightarrow> ProductDetails list \<Rightarrow> error option \<times> ProductDetails set" where
  "set_update s [] = (None, s)"
| "set_update s (x # xs) =
     (case hash_ProductDetails x of
        Inl e \<Rightarrow> (Some e, s)
      | Inr h \<Rightarrow> set_update (insert x s) xs)"

text \<open>\<open>get_all_products_async\<close>: the loop over the enumeration awaits each category
  before it turns to the next; an exception in the body is caught and the loop goes on.\<close>

fun get_all_products_loop ::
  "upstream \<Rightarrow> ProductCategory list \<Rightarrow> ProductDetails set \<Rightarrow> event list
     \<Rightarrow> ProductDetails set \<times> event list" where
  "get_all_products_loop up [] all_products trace = (all_products, trace)"
| "get_all_products_loop up (cat # rest) all_products trace =
     (let (products, trace1) = priv_get_products_by_category_async up cat;
          (raised, all_products1) = set_update all_products products
      in get_all_products_loop up rest all_products1 (trace @ trace1))"

definition get_all_products_async :: "upstream \<Rightarrow> ProductDetails set \<times> event list" where
  "get_all_products_async up = get_all_products_loop up all_categories {} []"

definition get_products_by_category_async ::
  "upstream \<Rightarrow> ProductCategory \<Rightarrow> ProductDetails list \<times> event list" where
  "get_products_by_category_async up cat = priv_get_products_by_category_async up cat"

definition get_product_by_id_async ::
  "upstream \<Rightarrow> string \<Rightarrow> ProductDetails option \<times> event list" where
  "get_product_by_id_async up product_id =
     (let (response, trace) =
            perform up (Request GET (orleans_base_url @ ''/api/products/'' @ product_id) None)
      in (case response of
            ClientError \<Rightarrow> None
          | Response st payload \<Rightarrow>
              if st = 200 then
                (case payload of
                   None \<Rightarrow> None
                 | Some product_data \<Rightarrow>
                     (case from_dict product_data of Inl e \<Rightarrow> None | Inr p \<Rightarrow> Some p))
              else if st = 404 then None
              else None,
          trace))"

text \<open>\<open>add_or_update_product_async\<close>: the body \<open>product.to_dict()\<close> is computed before
  the request is made, inside the \<open>try\<close>.\<close>

definition add_or_update_product_async :: "upstream \<Rightarrow> ProductDetails \<Rightarrow> bool \<times> event list" where
  "add_or_update_product_async up product =
     (case to_dict product of
        Inl e \<Rightarrow> (False, [])
      | Inr d \<Rightarrow>
          (let (response, trace) =
                 perform up (Request POST (products_url (category product)) (Some (PDict d)))
           in (case response of
                 ClientError \<Rightarrow> False
               | Response st payload \<Rightarrow> st \<in> set [200, 201],
               trace)))"

definition remove_product_async ::
  "upstream \<Rightarrow> string \<Rightarrow> ProductCategory \<Rightarrow> bool \<times> event list" where
  "remove_product_async up product_id cat =
     (let (response, trace) =
            perform up (Request DELETE (products_url cat @ ''/'' @ product_id) None)
      in (case response of
            ClientError \<Rightarrow> False
          | Response st payload \<Rightarrow> st \<in> set [200, 204],
          trace))"

section \<open>The REST gateway (api.py)\<close>

text \<open>
  A handler returns a value, which the framework sends with status 200, or raises
  \<open>HTTPException\<close> with a status code (the detail texts are left out). The request and
  response models are validated by the framework, so their fields have the declared types.
\<close>

datatype 'a http_result = Return 'a | HTTPException nat

fun status_code :: "'a http_result \<Rightarrow> nat" where
  "status_code (Return x) = 200"
| "status_code (HTTPException c) = c"

record ProductResponse =
  resp_id :: "string option"
  resp_name :: "string option"
  resp_description :: "string option"
  resp_category :: string
  resp_quantity :: int
  resp_unit_price :: pyfloat
  resp_total_price :: pyfloat
  resp_details_url :: "string option"
  resp_image_url :: "string option"

record ProductRequest =
  req_id :: "string option"
  req_name :: "string option"
  req_description :: "string option"
  req_category :: string
  req_quantity :: int
  req_unit_price :: pyfloat
  req_details_url :: "string option"
  req_image_url :: "string option"

definition product_to_response :: "ProductDetails \<Rightarrow> error + ProductResponse" where
  "product_to_response product =
     (case total_price product of
        Inl e \<Rightarrow> Inl e
      | Inr t \<Rightarrow>
          Inr \<lparr>resp_id = id' product,
               resp_name = name product,
               resp_description = description product,
               resp_category = category_value (category product),
               resp_quantity = quantity product,
               resp_unit_price = float_of_Decimal (unit_price product),
               resp_total_price = float_of_Decimal t,
               resp_details_url = details_url product,
               resp_image_url = image_url product\<rparr>)"

definition get_product_by_id ::
  "upstream \<Rightarrow> string \<Rightarrow> ProductResponse http_result \<times> event list" where
  "get_product_by_id up product_id =
     (let (product, trace) = get_product_by_id_async up product_id
      in (case product of
            None \<Rightarrow> HTTPException 404
          | Some p \<Rightarrow>
              (case product_to_response p of
                 Inl e \<Rightarrow> HTTPException 500
               | Inr r \<Rightarrow> Return r),
          trace))"

definition get_products_by_category ::
  "upstream \<Rightarrow> string \<Rightarrow> ProductResponse list http_result \<times> event list" where
  "get_products_by_category up category_name =
     (case ProductCategory_of category_name of
        Inl e \<Rightarrow> (HTTPException 400, [])
      | Inr product_category \<Rightarrow>
          (let (products, trace) = get_products_by_category_async up product_category
           in (case comprehension product_to_response products of
                 Inl e \<Rightarrow> HTTPException 500
               | Inr rs \<Rightarrow> Return rs,
               trace)))"

text \<open>The product that the POST handler builds: the category comes from the path, not
  from the payload.\<close>

definition product_of_request :: "ProductCategory \<Rightarrow> ProductRequest \<Rightarrow> ProductDetails" where
  "product_of_request product_category product_request =
     \<lparr>id' = req_id product_request,
      name = req_name product_request,
      description = req_description product_request,
      category = product_category,
      quantity = req_quantity product_request,
      unit_price = Decimal_of_float (req_unit_price product_request),
      details_url = req_details_url product_request,
      image_url = req_image_url product_request\<rparr>"

definition add_or_update_product ::
  "upstream \<Rightarrow> string \<Rightarrow> ProductRequest \<Rightarrow> ProductResponse http_result \<times> event list" where
  "add_or_update_product up category_name product_request =
     (case ProductCategory_of category_name of
        Inl e \<Rightarrow> (HTTPException 400, [])
      | Inr product_category \<Rightarrow>
          (let product = product_of_request product_category product_request;
               (success, trace) = add_or_update_product_async up product
           in (if \<not> success then HTTPException 500
               else (case product_to_response product of
                       Inl e \<Rightarrow> HTTPException 500
                     | Inr r \<Rightarrow> Return r),
               trace)))"

definition remove_product ::
  "upstream \<Rightarrow> string \<Rightarrow> string \<Rightarrow> pydict http_result \<times> event list" where
  "remove_product up category_name product_id =
     (case ProductCategory_of category_name of
        Inl e \<Rightarrow> (HTTPException 400, [])
      | Inr product_category \<Rightarrow>
          (let (success, trace) = remove_product_async up product_id product_category
           in (if \<not> success then HTTPException 404
               else Return [(''message'',
                             PStr (''Product '' @ product_id @ '' removed successfully''))],
               trace)))"

section \<open>Concrete upstreams and payloads\<close>

text \<open>The inputs at which the properties below are instantiated and evaluated.\<close>

definition unreachable_upstream :: upstream where
  "unreachable_upstream req = ClientError"

text \<open>An upstream that answers every request with the status \<open>st\<close> and no JSON body.\<close>

definition answering :: "nat \<Rightarrow> upstream" where
  "answering st req = Response st None"

definition sample_request :: ProductRequest where
  "sample_request =
     \<lparr>req_id = Some ''abc123'', req_name = Some ''Pen'', req_description = None,
      req_category = ''Books'', req_quantity = 3, req_unit_price = Float (Dec 1999 (- 2)),
      req_details_url = None, req_image_url = None\<rparr>"

definition pen_dict :: pydict where
  "pen_dict = [(''id'', PStr ''p1''), (''name'', PStr ''Pen''), (''category'', PStr ''Books''),
               (''quantity'', PInt 1), (''unit_price'', PFloat (Float (Dec 25 (- 1))))]"

definition pen :: ProductDetails where
  "pen = \<lparr>id' = Some ''p1'', name = Some ''Pen'', description = None, category = BOOKS,
           quantity = 1, unit_price = Dec 25 (- 1), details_url = None, image_url = None\<rparr>"

definition toy_dict :: pydict where
  "toy_dict = [(''id'', PStr ''t1''), (''name'', PStr ''Robot''), (''category'', PStr ''Toys''),
               (''quantity'', PInt 2), (''unit_price'', PFloat (Float (Dec 5 0)))]"

text \<open>One product in Books, every other category empty.\<close>

definition upstream_one_book :: upstream where
  "upstream_one_book req =
     (if req = Request GET (products_url BOOKS) None
      then Response 200 (Some (PList [PDict pen_dict]))
      else Response 200 (Some (PList [])))"

text \<open>The same, with the Music query answered 503.\<close>

definition upstream_music_down :: upstream where
  "upstream_music_down req =
     (if req = Request GET (products_url BOOKS) None
      then Response 200 (Some (PList [PDict pen_dict]))
      else if req = Request GET (products_url MUSIC) None
      then Response 503 None
      else Response 200 (Some (PList [])))"

text \<open>A list with one well-formed product and one of an unknown category.\<close>

definition upstream_unknown_category :: upstream where
  "upstream_unknown_category req = Response 200 (Some (PList [PDict pen_dict, PDict toy_dict]))"

text \<open>The requests of a trace, in the order they were sent.\<close>

fun sent_requests :: "event list \<Rightarrow> request list" where
  "sent_requests [] = []"
| "sent_requests (Sent req # trace) = req # sent_requests trace"
| "sent_requests (Received req r # trace) = sent_requests trace"

text \<open>Serialising a product and reading the text back: \<open>from_json(p.to_json())\<close>.\<close>

definition round_trip :: "ProductDetails \<Rightarrow> error + ProductDetails" where
  "round_trip p = (case to_json p of Inl e \<Rightarrow> Inl e | Inr json_str \<Rightarrow> from_json json_str)"

text \<open>\<open>ProductDetails(quantity=3, unit_price=Decimal('19.99'))\<close>.\<close>

definition three_at_1999 :: ProductDetails where
  "three_at_1999 = \<lparr>id' = None, name = None, description = None, category = OTHER,
                     quantity = 3, unit_price = Dec 1999 (- 2),
                     details_url = None, image_url = None\<rparr>"


text \<open>A fan-out that does not wait sends all its requests before it takes any reply:
  after the first \<open>Received\<close> event of the trace there is no \<open>Sent\<close> event.\<close>

fun is_Sent :: "event \<Rightarrow> bool" where
  "is_Sent (Sent req) = True"
| "is_Sent (Received req r) = False"

fun is_Received :: "event \<Rightarrow> bool" where
  "is_Received (Sent req) = False"
| "is_Received (Received req r) = True"

definition issued_without_waiting :: "event list \<Rightarrow> bool" where
  "issued_without_waiting trace = list_all is_Received (dropWhile is_Sent trace)"

section \<open>Properties\<close>

subsection \<open>Category validation\<close>

lemma ProductCategory_of_invalid:
  "s \<notin> set (map category_value all_categories) \<Longrightarrow> ProductCategory_of s = Inl ValueError"
  by (auto simp: ProductCategory_of_def find_None_iff split: option.splits)

lemma ProductCategory_of_value: "ProductCategory_of (category_value c) = Inr c"
  by (cases c) (simp_all add: ProductCategory_of_def all_categories_def)

lemma ProductCategory_of_Inr:
  "ProductCategory_of s = Inr c \<Longrightarrow> s = category_value c"
  by (auto simp: ProductCategory_of_def find_Some_iff split: option.splits)

text \<open>
  Claim C1. For a category string that is no value of the enumeration, the handlers for
  listing by category, for upserting and for removing all raise HTTPException 400, and
  their trace is empty: no request reaches the upstream.
\<close>

theorem invalid_category_rejected_before_upstream:
  assumes "category_name \<notin> set (map category_value all_categories)"
  shows "get_products_by_category up category_name = (HTTPException 400, [])
       \<and> add_or_update_product up category_name product_request = (HTTPException 400, [])
       \<and> remove_product up category_name product_id = (HTTPException 400, [])"
  using ProductCategory_of_invalid [OF assms]
  by (simp add: get_products_by_category_def add_or_update_product_def remove_product_def)

theorem invalid_category_rejected_before_upstream_witness:
  "''Toys'' \<notin> set (map category_value all_categories)
   \<and> get_products_by_category unreachable_upstream ''Toys'' = (HTTPException 400, [])
   \<and> add_or_update_product unreachable_upstream ''Toys'' sample_request = (HTTPException 400, [])
   \<and> remove_product unreachable_upstream ''Toys'' ''abc123'' = (HTTPException 400, [])"
proof -
  have h: "''Toys'' \<notin> set (map category_value all_categories)"
    by (simp add: all_categories_def)
  show ?thesis
    using h invalid_category_rejected_before_upstream
              [OF h, of unreachable_upstream sample_request "''abc123''"]
    by simp
qed

subsection \<open>Parsing upstream products\<close>

lemma comprehension_Inr_all:
  "comprehension f xs = Inr ys \<Longrightarrow> x \<in> set xs \<Longrightarrow> \<exists>y. f x = Inr y"
  by (induction xs arbitrary: ys) (auto split: sum.splits)

lemma comprehension_raises:
  assumes "x \<in> set xs" and "f x = Inl e"
  shows "\<exists>e'. comprehension f xs = Inl e'"
proof (cases "comprehension f xs")
  case (Inl e')
  then show ?thesis by blast
next
  case (Inr ys)
  from comprehension_Inr_all [OF Inr assms(1)] assms(2) show ?thesis by simp
qed

lemma from_dict_unknown_category:
  "map_of data ''category'' = Some (PStr s) \<Longrightarrow>
   s \<notin> set (map category_value all_categories) \<Longrightarrow>
   from_dict (PDict data) = Inl ValueError"
  by (simp add: convert_category_def ProductCategory_of_invalid)

lemma from_dict_pen: "from_dict (PDict pen_dict) = Inr pen"
  by (simp add: pen_dict_def pen_def convert_category_def convert_unit_price_def
      ProductCategory_of_def all_categories_def init_ProductDetails_def field_names_def
      str_field_def category_field_def quantity_field_def unit_price_field_def)

text \<open>
  Claim C10. \<open>from_dict\<close> raises ValueError on every dictionary whose \<open>category\<close> is
  a string outside the enumeration. Hence, when a 200 response to a list-by-category query
  is a JSON list that contains one such object, the client returns the empty list for the
  category, whatever else the list contains.
\<close>

theorem unknown_category_discards_whole_result:
  "(map_of data ''category'' = Some (PStr s) \<and> s \<notin> set (map category_value all_categories)
      \<longrightarrow> from_dict (PDict data) = Inl ValueError)
   \<and> (up (Request GET (products_url cat) None) = Response 200 (Some (PList items))
        \<and> PDict data \<in> set items
        \<and> map_of data ''category'' = Some (PStr s)
        \<and> s \<notin> set (map category_value all_categories)
      \<longrightarrow> fst (priv_get_products_by_category_async up cat) = [])"
proof (intro conjI impI)
  assume "map_of data ''category'' = Some (PStr s)
            \<and> s \<notin> set (map category_value all_categories)"
  then show "from_dict (PDict data) = Inl ValueError"
    using from_dict_unknown_category by blast
next
  assume a: "up (Request GET (products_url cat) None) = Response 200 (Some (PList items))
        \<and> PDict data \<in> set items
        \<and> map_of data ''category'' = Some (PStr s)
        \<and> s \<notin> set (map category_value all_categories)"
  then have "from_dict (PDict data) = Inl ValueError"
    using from_dict_unknown_category by blast
  with a obtain e where "comprehension from_dict items = Inl e"
    using comprehension_raises [of "PDict data" items from_dict ValueError] by blast
  with a show "fst (priv_get_products_by_category_async up cat) = []"
    by (simp add: priv_get_products_by_category_async_def perform_def)
qed

text \<open>The witness: the well-formed product \<open>pen\<close> is lost together with the object of
  the unknown category \<open>Toys\<close>.\<close>

theorem unknown_category_discards_whole_result_witness:
  "map_of toy_dict ''category'' = Some (PStr ''Toys'')
   \<and> ''Toys'' \<notin> set (map category_value all_categories)
   \<and> upstream_unknown_category (Request GET (products_url BOOKS) None) =
       Response 200 (Some (PList [PDict pen_dict, PDict toy_dict]))
   \<and> PDict toy_dict \<in> set [PDict pen_dict, PDict toy_dict]
   \<and> from_dict (PDict pen_dict) = Inr pen
   \<and> from_dict (PDict toy_dict) = Inl ValueError
   \<and> fst (priv_get_products_by_category_async upstream_unknown_category BOOKS) = []"
proof -
  have h1: "map_of toy_dict ''category'' = Some (PStr ''Toys'')"
    by (simp add: toy_dict_def)
  have h2: "''Toys'' \<notin> set (map category_value all_categories)"
    by (simp add: all_categories_def)
  have h3: "upstream_unknown_category (Request GET (products_url BOOKS) None) =
       Response 200 (Some (PList [PDict pen_dict, PDict toy_dict]))"
    by (simp add: upstream_unknown_category_def)
  have h4: "PDict toy_dict \<in> set [PDict pen_dict, PDict toy_dict]"
    by simp
  from unknown_category_discards_whole_result
         [of toy_dict "''Toys''" upstream_unknown_category BOOKS
             "[PDict pen_dict, PDict toy_dict]"]
       h1 h2 h3 h4 from_dict_pen
  show ?thesis by blast
qed

subsection \<open>Aggregation over all categories\<close>

lemma set_update_unhashable:
  "set_update s xs = (if xs = [] then None else Some TypeError, s)"
  by (cases xs) (simp_all add: hash_ProductDetails_def)

lemma priv_get_trace:
  "snd (priv_get_products_by_category_async up cat) =
     [Sent (Request GET (products_url cat) None),
      Received (Request GET (products_url cat) None) (up (Request GET (products_url cat) None))]"
  by (simp add: priv_get_products_by_category_async_def perform_def)

lemma get_all_products_loop_eq:
  "get_all_products_loop up cats s trace =
     (s, trace @ concat (map (\<lambda>cat. snd (priv_get_products_by_category_async up cat)) cats))"
  by (induction cats arbitrary: s trace)
     (simp_all add: set_update_unhashable split: prod.splits)

lemma get_all_products_async_empty: "fst (get_all_products_async up) = {}"
  by (simp add: get_all_products_async_def get_all_products_loop_eq)

lemma get_all_products_async_trace:
  "snd (get_all_products_async up) =
     concat (map (\<lambda>cat. [Sent (Request GET (products_url cat) None),
                          Received (Request GET (products_url cat) None)
                            (up (Request GET (products_url cat) None))]) all_categories)"
  by (simp add: get_all_products_async_def get_all_products_loop_eq priv_get_trace)

lemma sent_requests_get_all:
  "sent_requests (snd (get_all_products_async up)) =
     map (\<lambda>cat. Request GET (products_url cat) None) all_categories"
  by (simp add: get_all_products_async_trace all_categories_def)

lemma priv_get_one_book:
  "fst (priv_get_products_by_category_async upstream_one_book BOOKS) = [pen]"
  by (simp add: priv_get_products_by_category_async_def perform_def upstream_one_book_def
      from_dict_pen del: from_dict.simps)

text \<open>
  Claim C2, evaluated on the code. The upstream holds one product, in Books. The client
  sends one query per member of the enumeration and reads the product, but
  \<open>all_products.update\<close> raises TypeError on it (instances of the data class are
  unhashable), the \<open>except\<close> of the loop swallows the exception, and the returned set is
  empty: its size is 0, while the categories hold one distinct record.
\<close>

theorem get_all_products_drops_every_product:
  "fst (priv_get_products_by_category_async upstream_one_book BOOKS) = [pen]
   \<and> fst (get_all_products_async upstream_one_book) = {}
   \<and> card (fst (get_all_products_async upstream_one_book)) = 0
   \<and> sent_requests (snd (get_all_products_async upstream_one_book)) =
       map (\<lambda>cat. Request GET (products_url cat) None) all_categories"
  by (simp add: priv_get_one_book get_all_products_async_empty sent_requests_get_all)

lemma priv_get_music_down_books:
  "fst (priv_get_products_by_category_async upstream_music_down BOOKS) = [pen]"
  by (simp add: priv_get_products_by_category_async_def perform_def upstream_music_down_def
      from_dict_pen del: from_dict.simps)

lemma priv_get_music_down_music:
  "fst (priv_get_products_by_category_async upstream_music_down MUSIC) = []"
  by (simp add: priv_get_products_by_category_async_def perform_def upstream_music_down_def
      products_url_def)

text \<open>
  Claim C3, evaluated on the code. The Music query is answered 503 and the seven others
  succeed, Books with one product. The failed category contributes nothing and nothing is
  raised, but the result is the empty set, not the union of the successful results.
\<close>

theorem one_failed_category_loses_the_others:
  "upstream_music_down (Request GET (products_url MUSIC) None) = Response 503 None
   \<and> fst (priv_get_products_by_category_async upstream_music_down MUSIC) = []
   \<and> fst (priv_get_products_by_category_async upstream_music_down BOOKS) = [pen]
   \<and> fst (get_all_products_async upstream_music_down) = {}"
  by (simp add: priv_get_music_down_books priv_get_music_down_music
      get_all_products_async_empty)
     (simp add: upstream_music_down_def products_url_def)

subsection \<open>Serialisation round trip\<close>

lemma total_price_three_at_1999: "total_price three_at_1999 = Inr (Dec 5997 (- 2))"
  by (simp add: total_price_def three_at_1999_def int_times_Decimal_def Decimal_fix_def
      round2_def Let_def ndigits.simps prec_def Emax_def Emin_def Etiny_def Etop_def)

lemma to_dict_three_at_1999:
  "to_dict three_at_1999 =
     Inr [(''id'', PNone), (''name'', PNone), (''description'', PNone),
          (''category'', PStr ''Other''), (''quantity'', PInt 3),
          (''unit_price'', PFloat (Float (Dec 1999 (- 2)))),
          (''details_url'', PNone), (''image_url'', PNone),
          (''total_price'', PFloat (Float (Dec 5997 (- 2))))]"
  by (simp add: to_dict_def total_price_three_at_1999 float_of_Decimal_def)
     (simp add: three_at_1999_def)

text \<open>Without the key \<open>total_price\<close> the dictionary reads back as the record.\<close>

lemma from_dict_without_total_price:
  "from_dict (PDict
         [(''id'', PNone), (''name'', PNone), (''description'', PNone),
          (''category'', PStr ''Other''), (''quantity'', PInt 3),
          (''unit_price'', PFloat (Float (Dec 1999 (- 2)))),
          (''details_url'', PNone), (''image_url'', PNone)]) = Inr three_at_1999"
  by (simp add: three_at_1999_def convert_category_def convert_unit_price_def
      ProductCategory_of_def all_categories_def init_ProductDetails_def field_names_def
      str_field_def category_field_def quantity_field_def unit_price_field_def)

text \<open>No product survives the round trip: \<open>to_dict\<close> always adds the key
  \<open>total_price\<close>, the two conversions of \<open>from_dict\<close> keep every key, and
  \<open>cls(**data)\<close> rejects it.\<close>

lemma to_dict_keys:
  "to_dict p = Inr d \<Longrightarrow> ''total_price'' \<in> set (map fst d)"
  by (auto simp: to_dict_def split: sum.splits)

lemma setitem_keys: "set (map fst (setitem d k v)) = insert k (set (map fst d))"
  by (induction d k v rule: setitem.induct) auto

lemma convert_category_keys:
  "convert_category d = Inr d' \<Longrightarrow> set (map fst d) \<subseteq> set (map fst d')"
  by (auto simp: convert_category_def setitem_keys simp del: set_map
      split: option.splits pyval.splits sum.splits)

lemma convert_unit_price_keys:
  "convert_unit_price d = Inr d' \<Longrightarrow> set (map fst d) \<subseteq> set (map fst d')"
  by (auto simp: convert_unit_price_def setitem_keys simp del: set_map
      split: option.splits sum.splits)

lemma init_unknown_key:
  "''total_price'' \<in> set (map fst d) \<Longrightarrow> init_ProductDetails d = Inl TypeError"
  by (auto simp: init_ProductDetails_def field_names_def)

lemma from_dict_total_price:
  assumes "''total_price'' \<in> set (map fst d)"
  shows "\<exists>e. from_dict (PDict d) = Inl e"
proof (cases "convert_category d")
  case (Inl e)
  then show ?thesis by simp
next
  case (Inr d1)
  note c1 = this
  show ?thesis
  proof (cases "convert_unit_price d1")
    case (Inl e)
    with c1 show ?thesis by simp
  next
    case (Inr d2)
    from convert_category_keys [OF c1] convert_unit_price_keys [OF Inr] assms
    have "''total_price'' \<in> set (map fst d2)" by blast
    from init_unknown_key [OF this] c1 Inr show ?thesis by simp
  qed
qed

lemma round_trip_never_succeeds: "\<exists>e. round_trip p = Inl e"
proof (cases "to_dict p")
  case (Inl e)
  then show ?thesis by (simp add: round_trip_def to_json_def)
next
  case (Inr d)
  show ?thesis
  proof (cases "json_dumps (PDict d)")
    case (Inl e)
    with Inr show ?thesis by (simp add: round_trip_def to_json_def)
  next
    case j: (Inr t)
    then have "t = JsonText (PDict d)"
      by (auto simp: json_dumps_def split: if_splits)
    with Inr j from_dict_total_price [OF to_dict_keys [OF Inr]] show ?thesis
      by (auto simp: round_trip_def to_json_def from_json_def simp del: from_dict.simps)
  qed
qed

text \<open>
  Claim C4, evaluated on the code. The record with quantity 3 and unit price 19.99 is
  serialised with \<open>total_price\<close> 59.97. Reading the text back does not give a record:
  \<open>to_dict\<close> has added the key \<open>total_price\<close>, which is a property and no field of
  the data class, so \<open>cls(**data)\<close> in \<open>from_dict\<close> raises TypeError.
\<close>

theorem round_trip_raises_TypeError:
  "quantity three_at_1999 = 3 \<and> unit_price three_at_1999 = Dec 1999 (- 2)
   \<and> to_json three_at_1999 =
       Inr (JsonText (PDict
         [(''id'', PNone), (''name'', PNone), (''description'', PNone),
          (''category'', PStr ''Other''), (''quantity'', PInt 3),
          (''unit_price'', PFloat (Float (Dec 1999 (- 2)))),
          (''details_url'', PNone), (''image_url'', PNone),
          (''total_price'', PFloat (Float (Dec 5997 (- 2))))]))
   \<and> round_trip three_at_1999 = Inl TypeError"
  apply (simp add: round_trip_def to_json_def to_dict_three_at_1999 json_dumps_def from_json_def)
  apply (simp add: three_at_1999_def convert_category_def convert_unit_price_def
      ProductCategory_of_def all_categories_def init_ProductDetails_def field_names_def)
  done

subsection \<open>Get by id\<close>

lemma get_product_by_id_async_absent:
  "up (Request GET (orleans_base_url @ ''/api/products/'' @ product_id) None) = ClientError
   \<or> (\<exists>st payload. up (Request GET (orleans_base_url @ ''/api/products/'' @ product_id) None)
                       = Response st payload \<and> st \<noteq> 200)
   \<Longrightarrow> fst (get_product_by_id_async up product_id) = None"
  by (auto simp: get_product_by_id_async_def perform_def)

lemma get_product_by_id_None:
  "fst (get_product_by_id_async up product_id) = None \<Longrightarrow>
   fst (get_product_by_id up product_id) = HTTPException 404"
  by (cases "get_product_by_id_async up product_id") (simp add: get_product_by_id_def)

text \<open>
  Claim C5 fails on the code: when the upstream answers 503, the client returns the same
  \<open>None\<close> as for 404, so "absent" is not returned exactly on 404, and the gateway
  responds 404, not 500.
\<close>

theorem get_by_id_upstream_error_is_404:
  "answering 503 (Request GET (orleans_base_url @ ''/api/products/'' @ ''abc123'') None)
     = Response 503 None
   \<and> fst (get_product_by_id_async (answering 503) ''abc123'') = None
   \<and> fst (get_product_by_id (answering 503) ''abc123'') = HTTPException 404
   \<and> status_code (fst (get_product_by_id (answering 503) ''abc123'')) \<noteq> 500"
  by (simp add: get_product_by_id_def get_product_by_id_async_def perform_def answering_def)

text \<open>
  Claim C5 as amended. The client returns "absent" when the upstream responds 404, and
  also for every other status that is not 200 and for a failed request; the gateway maps
  "absent" to HTTP 404 in all these cases.
\<close>

theorem absent_is_404:
  assumes "up (Request GET (orleans_base_url @ ''/api/products/'' @ product_id) None) = ClientError
   \<or> (\<exists>st payload. up (Request GET (orleans_base_url @ ''/api/products/'' @ product_id) None)
                       = Response st payload \<and> st \<noteq> 200)"
  shows "fst (get_product_by_id_async up product_id) = None
       \<and> fst (get_product_by_id up product_id) = HTTPException 404"
  using assms get_product_by_id_async_absent [of up product_id]
        get_product_by_id_None [of up product_id]
  by blast

theorem absent_is_404_witness:
  "(answering 404 (Request GET (orleans_base_url @ ''/api/products/'' @ ''abc123'') None)
      = ClientError
    \<or> (\<exists>st payload.
          answering 404 (Request GET (orleans_base_url @ ''/api/products/'' @ ''abc123'') None)
            = Response st payload \<and> st \<noteq> 200))
   \<and> fst (get_product_by_id_async (answering 404) ''abc123'') = None
   \<and> fst (get_product_by_id (answering 404) ''abc123'') = HTTPException 404"
proof -
  have h: "answering 404 (Request GET (orleans_base_url @ ''/api/products/'' @ ''abc123'') None)
      = ClientError
    \<or> (\<exists>st payload.
          answering 404 (Request GET (orleans_base_url @ ''/api/products/'' @ ''abc123'') None)
            = Response st payload \<and> st \<noteq> 200)"
    by (simp add: answering_def)
  from h absent_is_404 [of "answering 404" "''abc123''"] show ?thesis
    by blast
qed

subsection \<open>Upsert\<close>

lemma add_or_update_product_async_iff:
  "fst (add_or_update_product_async up p) \<longleftrightarrow>
     (\<exists>d payload. to_dict p = Inr d
        \<and> (up (Request POST (products_url (category p)) (Some (PDict d))) = Response 200 payload
           \<or> up (Request POST (products_url (category p)) (Some (PDict d))) = Response 201 payload))"
  by (auto simp: add_or_update_product_async_def perform_def split: sum.splits reply.splits)

lemma add_or_update_product_failed:
  "ProductCategory_of category_name = Inr cat \<Longrightarrow>
   \<not> fst (add_or_update_product_async up (product_of_request cat product_request)) \<Longrightarrow>
   fst (add_or_update_product up category_name product_request) = HTTPException 500"
  by (cases "add_or_update_product_async up (product_of_request cat product_request)")
     (simp add: add_or_update_product_def)

text \<open>
  Claim C6. \<open>add_or_update_product_async\<close> returns true exactly when the POST was made
  and the upstream answered it with status 200 or 201; every other status, a failed
  request and a body that could not be built give false. When it returns false for the
  product of a request with a valid category, the gateway raises HTTPException 500.
\<close>

theorem upsert_true_iff_200_or_201:
  "(fst (add_or_update_product_async up p) \<longleftrightarrow>
     (\<exists>d payload. to_dict p = Inr d
        \<and> (up (Request POST (products_url (category p)) (Some (PDict d))) = Response 200 payload
           \<or> up (Request POST (products_url (category p)) (Some (PDict d))) = Response 201 payload)))
   \<and> (ProductCategory_of category_name = Inr cat
        \<and> \<not> fst (add_or_update_product_async up (product_of_request cat product_request))
      \<longrightarrow> fst (add_or_update_product up category_name product_request) = HTTPException 500)"
  using add_or_update_product_async_iff add_or_update_product_failed by blast

lemma total_price_sample_request:
  "total_price (product_of_request BOOKS sample_request) = Inr (Dec 5997 (- 2))"
  by (simp add: total_price_def product_of_request_def sample_request_def
      int_times_Decimal_def Decimal_fix_def round2_def
      Let_def ndigits.simps prec_def Emax_def Emin_def Etiny_def Etop_def)

text \<open>The witness: the same product is refused when the upstream answers 500 and
  taken when it answers 201.\<close>

theorem upsert_true_iff_200_or_201_witness:
  "ProductCategory_of ''Books'' = Inr BOOKS
   \<and> \<not> fst (add_or_update_product_async (answering 500) (product_of_request BOOKS sample_request))
   \<and> fst (add_or_update_product (answering 500) ''Books'' sample_request) = HTTPException 500
   \<and> fst (add_or_update_product_async (answering 201) (product_of_request BOOKS sample_request))"
proof -
  have h1: "ProductCategory_of ''Books'' = Inr BOOKS"
    by (simp add: ProductCategory_of_def all_categories_def)
  have h2: "\<not> fst (add_or_update_product_async (answering 500)
                     (product_of_request BOOKS sample_request))"
    by (simp add: add_or_update_product_async_def perform_def answering_def split: sum.splits)
  have h3: "fst (add_or_update_product_async (answering 201)
                  (product_of_request BOOKS sample_request))"
    by (simp add: add_or_update_product_async_def to_dict_def total_price_sample_request
        perform_def answering_def)
  from h1 h2 h3 upsert_true_iff_200_or_201
               [of "answering 500" "product_of_request BOOKS sample_request"
                   "''Books''" BOOKS sample_request]
  show ?thesis by blast
qed

subsection \<open>Delete\<close>

text \<open>
  Claim C7. For a valid category, when the upstream answers the DELETE with 200 or 204
  the client reports success and the gateway returns (status 200) the success message;
  for 404 and every other status the client reports failure and the gateway raises
  HTTPException 404.
\<close>

theorem remove_product_status_mapping:
  assumes "ProductCategory_of category_name = Inr cat"
    and "up (Request DELETE (products_url cat @ ''/'' @ product_id) None) = Response st payload"
  shows "fst (remove_product_async up product_id cat) = (st = 200 \<or> st = 204)
       \<and> fst (remove_product up category_name product_id) =
           (if st = 200 \<or> st = 204
            then Return [(''message'',
                          PStr (''Product '' @ product_id @ '' removed successfully''))]
            else HTTPException 404)
       \<and> status_code (fst (remove_product up category_name product_id)) =
           (if st = 200 \<or> st = 204 then 200 else 404)"
  using assms by (simp add: remove_product_def remove_product_async_def perform_def)

theorem remove_product_status_mapping_witness:
  "ProductCategory_of ''Books'' = Inr BOOKS
   \<and> answering 204 (Request DELETE (products_url BOOKS @ ''/'' @ ''abc123'') None)
       = Response 204 None
   \<and> fst (remove_product (answering 204) ''Books'' ''abc123'') =
       Return [(''message'', PStr ''Product abc123 removed successfully'')]
   \<and> answering 404 (Request DELETE (products_url BOOKS @ ''/'' @ ''abc123'') None)
       = Response 404 None
   \<and> fst (remove_product (answering 404) ''Books'' ''abc123'') = HTTPException 404"
proof -
  have h1: "ProductCategory_of ''Books'' = Inr BOOKS"
    by (simp add: ProductCategory_of_def all_categories_def)
  have h2: "answering 204 (Request DELETE (products_url BOOKS @ ''/'' @ ''abc123'') None)
       = Response 204 None"
    by (simp add: answering_def)
  have h3: "answering 404 (Request DELETE (products_url BOOKS @ ''/'' @ ''abc123'') None)
       = Response 404 None"
    by (simp add: answering_def)
  have r1: "fst (remove_product (answering 204) ''Books'' ''abc123'') =
       Return [(''message'', PStr ''Product abc123 removed successfully'')]"
    using h1 h2
      remove_product_status_mapping
        [where category_name = "''Books''" and cat = BOOKS and up = "answering 204"
           and product_id = "''abc123''" and st = 204 and payload = None]
    by simp
  have r2: "fst (remove_product (answering 404) ''Books'' ''abc123'') = HTTPException 404"
    using h1 h3
      remove_product_status_mapping
        [where category_name = "''Books''" and cat = BOOKS and up = "answering 404"
           and product_id = "''abc123''" and st = 404 and payload = None]
    by simp
  from h1 h2 h3 r1 r2 show ?thesis by blast
qed

subsection \<open>Bounds on quantity and unit price\<close>






subsection \<open>Order of the category queries\<close>

text \<open>
  Claim C9 fails on the code: the query for the second category is sent only after the
  reply to the first has been received, so the queries are not issued without waiting for
  each other.
\<close>

theorem second_query_waits_for_first_reply:
  "take 3 (snd (get_all_products_async upstream_one_book)) =
     [Sent (Request GET (products_url ACCESSORIES) None),
      Received (Request GET (products_url ACCESSORIES) None) (Response 200 (Some (PList []))),
      Sent (Request GET (products_url HARDWARE) None)]
   \<and> \<not> issued_without_waiting (snd (get_all_products_async upstream_one_book))"
  by (simp add: get_all_products_async_trace all_categories_def issued_without_waiting_def
      upstream_one_book_def products_url_def)

text \<open>
  Claim C9 as amended. \<open>get_all_products_async\<close> queries the categories one after the
  other, in the order of the enumeration: its trace is, for each category in turn, the
  request sent and then its reply received, so every query is sent after the reply to
  the one before it.
\<close>

theorem queries_are_sequential:
  "snd (get_all_products_async up) =
     concat (map (\<lambda>cat. [Sent (Request GET (products_url cat) None),
                          Received (Request GET (products_url cat) None)
                            (up (Request GET (products_url cat) None))]) all_categories)"
  by (simp add: get_all_products_async_def get_all_products_loop_eq priv_get_trace)

end
